theory Spec2Isabelle
  imports Complex_Main "HOL-Library.Word" "HOL-Library.Multiset"
begin

section \<open>The movie record\<close>

text \<open>
  The Go struct \<^verbatim>\<open>Movie\<close> of \<^verbatim>\<open>internal/data\<close>. \<^verbatim>\<open>int64\<close> and \<^verbatim>\<open>int32\<close> are words that
  are read signed (\<open>sint\<close>); \<^verbatim>\<open>Runtime\<close> is a named \<^verbatim>\<open>int32\<close>. A Go string is a sequence
  of bytes and \<^verbatim>\<open>len\<close> counts them, as \<open>length\<close> does on \<open>string\<close>. A slice can be
  \<^verbatim>\<open>nil\<close>, which \<^verbatim>\<open>ValidateMovie\<close> tests for: \<open>None\<close> is the nil slice. A point in time
  is a number of an unspecified unit.
\<close>

type_synonym int64 = "64 word"
type_synonym int32 = "32 word"
type_synonym time = int

record Movie =
  ID :: int64
  CreatedAt :: time
  Title :: string
  Year :: int32
  Runtime :: int32
  Genres :: "string list option"
  Version :: int32

text \<open>\<^verbatim>\<open>len(s)\<close> of a slice: 0 for the nil slice.\<close>

definition len :: "'a list option \<Rightarrow> nat" where
  "len s = (case s of None \<Rightarrow> 0 | Some xs \<Rightarrow> length xs)"

section \<open>Validation\<close>

text \<open>
  Modelled from the spec: the package \<^verbatim>\<open>internal/validator\<close> (\<^verbatim>\<open>Validator\<close>, \<^verbatim>\<open>New\<close>,
  \<^verbatim>\<open>Valid\<close>, \<^verbatim>\<open>AddError\<close>, \<^verbatim>\<open>Check\<close>, \<^verbatim>\<open>Unique\<close>) is not among the sources. The spec gives
  the result of validation as a map from field to reason whose emptiness means valid, and
  the handlers' comment on \<^verbatim>\<open>Check\<close> says that it adds the key and the message to the
  errors map if the check does not evaluate to true. Which reason a field keeps when two
  of its checks fail is not stated: it is the parameter \<open>pick\<close>, applied to the reason
  already stored and the new one.
\<close>

record Validator =
  Errors :: "string \<rightharpoonup> string"

definition New :: Validator where
  "New = \<lparr>Errors = Map.empty\<rparr>"

definition Valid :: "Validator \<Rightarrow> bool" where
  "Valid v = (Errors v = Map.empty)"

definition AddError ::
  "(string \<Rightarrow> string \<Rightarrow> string) \<Rightarrow> Validator \<Rightarrow> string \<Rightarrow> string \<Rightarrow> Validator" where
  "AddError pick v key message =
     (case Errors v key of
        None \<Rightarrow> v\<lparr>Errors := (Errors v)(key \<mapsto> message)\<rparr>
      | Some old \<Rightarrow> v\<lparr>Errors := (Errors v)(key \<mapsto> pick old message)\<rparr>)"

definition Check ::
  "(string \<Rightarrow> string \<Rightarrow> string) \<Rightarrow> bool \<Rightarrow> string \<Rightarrow> string \<Rightarrow> Validator \<Rightarrow> Validator" where
  "Check pick ok key message v = (if \<not> ok then AddError pick v key message else v)"

text \<open>
  Modelled from the spec: \<^verbatim>\<open>validator.Unique\<close> is not among the sources; the spec asks for
  tags that are all distinct under case-sensitive exact match. The nil slice has no
  duplicates.
\<close>

definition Unique :: "string list option \<Rightarrow> bool" where
  "Unique values = (case values of None \<Rightarrow> True | Some xs \<Rightarrow> distinct xs)"

text \<open>
  \<^verbatim>\<open>ValidateMovie(v, movie)\<close>: eleven checks in the order of the source, each on the
  validator the previous one returned. \<open>year_now\<close> is \<^verbatim>\<open>int32(time.Now().Year())\<close>.
\<close>

definition ValidateMovie ::
  "(string \<Rightarrow> string \<Rightarrow> string) \<Rightarrow> int32 \<Rightarrow> Validator \<Rightarrow> Movie \<Rightarrow> Validator" where
  "ValidateMovie pick year_now v movie =
     (let v = Check pick (Title movie \<noteq> '''') ''title'' ''must be provided'' v;
          v = Check pick (length (Title movie) \<le> 500) ''title''
                ''must not be more than 500 bytes long'' v;
          v = Check pick (Year movie \<noteq> 0) ''year'' ''must be provided'' v;
          v = Check pick (1888 \<le> sint (Year movie)) ''year'' ''must be greater than 1888'' v;
          v = Check pick (sint (Year movie) \<le> sint year_now) ''year''
                ''must not be in the future'' v;
          v = Check pick (Runtime movie \<noteq> 0) ''runtime'' ''must be provided'' v;
          v = Check pick (0 < sint (Runtime movie)) ''runtime'' ''must be a positive integer'' v;
          v = Check pick (Genres movie \<noteq> None) ''genres'' ''must be provided'' v;
          v = Check pick (1 \<le> len (Genres movie)) ''genres'' ''must contain at least 1 genre'' v;
          v = Check pick (len (Genres movie) \<le> 5) ''genres''
                ''must not contain more than 5 genres'' v;
          v = Check pick (Unique (Genres movie)) ''genres''
                ''must not contain duplicate values'' v
      in v)"

text \<open>The constraints of each field, as \<^verbatim>\<open>ValidateMovie\<close> tests them.\<close>

definition title_ok :: "Movie \<Rightarrow> bool" where
  "title_ok movie = (Title movie \<noteq> '''' \<and> length (Title movie) \<le> 500)"

definition year_ok :: "int32 \<Rightarrow> Movie \<Rightarrow> bool" where
  "year_ok year_now movie =
     (Year movie \<noteq> 0 \<and> 1888 \<le> sint (Year movie) \<and> sint (Year movie) \<le> sint year_now)"

definition runtime_ok :: "Movie \<Rightarrow> bool" where
  "runtime_ok movie = (Runtime movie \<noteq> 0 \<and> 0 < sint (Runtime movie))"

definition genres_ok :: "Movie \<Rightarrow> bool" where
  "genres_ok movie =
     (Genres movie \<noteq> None \<and> 1 \<le> len (Genres movie) \<and> len (Genres movie) \<le> 5 \<and>
      Unique (Genres movie))"

section \<open>Errors\<close>

text \<open>
  What \<^verbatim>\<open>database/sql\<close> hands to the store: \<^verbatim>\<open>sql.ErrNoRows\<close>, which \<^verbatim>\<open>Scan\<close> on the row of
  \<^verbatim>\<open>QueryRowContext\<close> returns when the statement gave no row, or any other error of the
  pool, the driver or the server, told apart by its message.
\<close>

datatype sql_error = ErrNoRows | OtherErr string

text \<open>
  What the store returns. Modelled from the spec: the sentinels \<^verbatim>\<open>ErrRecordNotFound\<close> and
  \<^verbatim>\<open>ErrEditConflict\<close> are declared in a file of \<^verbatim>\<open>internal/data\<close> that is not among the
  sources; the spec names them NotFound and EditConflict, two kinds apart from every
  backend failure. \<open>Backend e\<close> is the error \<open>e\<close> of \<^verbatim>\<open>database/sql\<close> returned as it came.
  \<open>UnsafeSortParameter\<close> is the failed safelist check of the sort key (see \<open>sortColumn\<close>).
\<close>

datatype error = ErrRecordNotFound | ErrEditConflict | Backend sql_error | UnsafeSortParameter

section \<open>The backend\<close>

text \<open>
  The table \<^verbatim>\<open>movies\<close> behind the connection pool, its rows in storage order. A row has
  the columns of the statements below, which are the fields of \<open>Movie\<close>; a \<^verbatim>\<open>NULL\<close> array
  is \<open>None\<close>. Modelled from the spec: the schema (the migrations) is not among the sources;
  the spec gives an auto-incrementing positive integer primary key (here the sequence
  \<open>seq\<close>, the next value it hands out), a creation timestamp assigned by the server
  (here its clock) and an integer version column defaulting to 1. \<open>requests\<close> counts the
  statements sent to the backend.
\<close>

record db =
  movies :: "Movie list"
  seq :: int
  clock :: time
  requests :: nat

definition version_default :: int32 where
  "version_default = 1"

text \<open>
  One request to the backend, as \<^verbatim>\<open>QueryRowContext\<close>, \<^verbatim>\<open>ExecContext\<close> and \<^verbatim>\<open>QueryContext\<close>
  issue it. The request can fail outside the statement (no connection, the pool
  exhausted, the deadline of the context passed): \<open>fault = Some msg\<close> is such a failure with
  message \<open>msg\<close>, and the statement is then not run. Otherwise the statement runs on the
  table and gives its result set or an error of its own.
\<close>

definition request ::
  "string option \<Rightarrow> (db \<Rightarrow> db \<times> (sql_error + 'a)) \<Rightarrow> db \<Rightarrow> db \<times> (sql_error + 'a)" where
  "request fault stmt d =
     (let d = d\<lparr>requests := requests d + 1\<rparr>
      in case fault of
           Some msg \<Rightarrow> (d, Inl (OtherErr msg))
         | None \<Rightarrow> stmt d)"

text \<open>
  \<^verbatim>\<open>Row.Scan\<close> after \<^verbatim>\<open>QueryRowContext\<close>: the error of the request, \<^verbatim>\<open>sql.ErrNoRows\<close> for an
  empty result set, else the first row.
\<close>

definition Scan :: "sql_error + 'a list \<Rightarrow> sql_error + 'a" where
  "Scan r =
     (case r of
        Inl err \<Rightarrow> Inl err
      | Inr [] \<Rightarrow> Inl ErrNoRows
      | Inr (x # _) \<Rightarrow> Inr x)"

subsection \<open>The statements\<close>

text \<open>
  \<^verbatim>\<open>INSERT INTO movies (title, year, runtime, genres) VALUES ($1, $2, $3, $4)
  RETURNING id, created_at, version\<close>. The columns that are not listed take their defaults.
  A sequence that has passed the largest \<^verbatim>\<open>bigint\<close> gives an error.
\<close>

definition sql_insert ::
  "string \<Rightarrow> int32 \<Rightarrow> int32 \<Rightarrow> string list option \<Rightarrow> db
     \<Rightarrow> db \<times> (sql_error + (int64 \<times> time \<times> int32) list)" where
  "sql_insert title year runtime genres d =
     (if seq d > 9223372036854775807
      then (d, Inl (OtherErr ''nextval: reached maximum value of sequence''))
      else
        let row = \<lparr>ID = word_of_int (seq d), CreatedAt = clock d, Title = title, Year = year,
                   Runtime = runtime, Genres = genres, Version = version_default\<rparr>
        in (d\<lparr>movies := movies d @ [row], seq := seq d + 1\<rparr>,
            Inr [(ID row, CreatedAt row, Version row)]))"

text \<open>
  \<^verbatim>\<open>SELECT id, created_at, title, year, runtime, genres, version FROM movies WHERE id = $1\<close>.
\<close>

definition sql_select ::
  "int64 \<Rightarrow> db \<Rightarrow> db \<times> (sql_error + Movie list)" where
  "sql_select id' d = (d, Inr (filter (\<lambda>r. ID r = id') (movies d)))"

text \<open>
  \<^verbatim>\<open>UPDATE movies SET title = $1, year = $2, runtime = $3, genres = $4, version = version + 1
  WHERE id = $5 AND version = $6 RETURNING version\<close>. The server's \<^verbatim>\<open>integer\<close> does not wrap
  around: \<^verbatim>\<open>version + 1\<close> on the largest value is an error, and the statement changes
  nothing.
\<close>

definition sql_update ::
  "string \<Rightarrow> int32 \<Rightarrow> int32 \<Rightarrow> string list option \<Rightarrow> int64 \<Rightarrow> int32 \<Rightarrow> db
     \<Rightarrow> db \<times> (sql_error + int32 list)" where
  "sql_update title year runtime genres id' version d =
     (let hit = (\<lambda>r. ID r = id' \<and> Version r = version);
          set_row = (\<lambda>r. r\<lparr>Title := title, Year := year, Runtime := runtime, Genres := genres,
                             Version := Version r + 1\<rparr>)
      in if list_ex (\<lambda>r. hit r \<and> sint (Version r) = 2147483647) (movies d)
         then (d, Inl (OtherErr ''integer out of range''))
         else (d\<lparr>movies := map (\<lambda>r. if hit r then set_row r else r) (movies d)\<rparr>,
               Inr (map (\<lambda>r. Version (set_row r)) (filter hit (movies d)))))"

text \<open>\<^verbatim>\<open>DELETE FROM movies WHERE id = $1\<close>; the result is the number of rows removed.\<close>

definition sql_delete :: "int64 \<Rightarrow> db \<Rightarrow> db \<times> (sql_error + nat)" where
  "sql_delete id' d =
     (d\<lparr>movies := filter (\<lambda>r. ID r \<noteq> id') (movies d)\<rparr>,
      Inr (length (filter (\<lambda>r. ID r = id') (movies d))))"

text \<open>
  The \<^verbatim>\<open>WHERE\<close> clause of the listing,
  \<^verbatim>\<open>(to_tsvector('simple', title) @@ plainto_tsquery('simple', $1) OR $1 = '')
  AND (genres @> $2 OR $2 = '{}')\<close>. The full-text match of a title against a query is the
  server's: the parameter \<open>tsmatch\<close>. \<open>contains\<close> is \<^verbatim>\<open>@>\<close>: every element of the right
  array is an element of the left one; on a \<^verbatim>\<open>NULL\<close> left array it is \<^verbatim>\<open>NULL\<close>, which
  selects the row only when the other side of \<^verbatim>\<open>OR\<close> is true. \<open>$2\<close> is the array of the
  caller's slice.
\<close>

definition contains :: "string list option \<Rightarrow> string list \<Rightarrow> bool" where
  "contains a b = (case a of None \<Rightarrow> False | Some xs \<Rightarrow> list_all (\<lambda>g. List.member xs g) b)"

definition matches :: "(string \<Rightarrow> string \<Rightarrow> bool) \<Rightarrow> string \<Rightarrow> string list \<Rightarrow> Movie \<Rightarrow> bool" where
  "matches tsmatch title genres r =
     ((tsmatch (Title r) title \<or> title = '''') \<and> (contains (Genres r) genres \<or> genres = []))"

text \<open>
  \<^verbatim>\<open>ORDER BY <column> <direction>, id ASC\<close>. How the server compares two values of a
  column (the collation of a text, the place of \<^verbatim>\<open>NULL\<close>) is its own: \<open>key\<close> maps a row
  to the rank of its value in the server's order of that column. \<open>before key desc a b\<close>
  says that row \<open>a\<close> may stand before row \<open>b\<close>. The rows are put in order by insertion.
\<close>

definition before :: "(Movie \<Rightarrow> 'k::linorder) \<Rightarrow> bool \<Rightarrow> Movie \<Rightarrow> Movie \<Rightarrow> bool" where
  "before key desc a b =
     (if key a = key b then sint (ID a) \<le> sint (ID b)
      else if desc then key b < key a
      else key a < key b)"

fun insert_row :: "(Movie \<Rightarrow> Movie \<Rightarrow> bool) \<Rightarrow> Movie \<Rightarrow> Movie list \<Rightarrow> Movie list" where
  "insert_row le x [] = [x]"
| "insert_row le x (y # ys) = (if le x y then x # y # ys else y # insert_row le x ys)"

definition order_by :: "(Movie \<Rightarrow> Movie \<Rightarrow> bool) \<Rightarrow> Movie list \<Rightarrow> Movie list" where
  "order_by le rs = foldr (insert_row le) rs []"

text \<open>
  \<^verbatim>\<open>SELECT count(*) OVER(), id, created_at, title, year, runtime, genres, version FROM movies
  WHERE ... ORDER BY <column> <direction>, id ASC LIMIT $3 OFFSET $4\<close>. \<open>colkey\<close> gives the
  order of each column the table has, and \<open>None\<close> for a name that is no column. The
  window function puts the number of all selected rows, before \<^verbatim>\<open>LIMIT\<close> and \<^verbatim>\<open>OFFSET\<close>,
  into every row returned. A negative \<^verbatim>\<open>LIMIT\<close> or \<^verbatim>\<open>OFFSET\<close> is an error.
\<close>

definition sql_select_page ::
  "(string \<Rightarrow> string \<Rightarrow> bool) \<Rightarrow> (string \<Rightarrow> (Movie \<Rightarrow> 'k::linorder) option) \<Rightarrow> string \<Rightarrow> string
     \<Rightarrow> string \<Rightarrow> string list \<Rightarrow> int \<Rightarrow> int \<Rightarrow> db \<Rightarrow> db \<times> (sql_error + (int \<times> Movie) list)" where
  "sql_select_page tsmatch colkey column direction title genres limit offset d =
     (case colkey column of
        None \<Rightarrow> (d, Inl (OtherErr ''column does not exist''))
      | Some key \<Rightarrow>
          if limit < 0 then (d, Inl (OtherErr ''LIMIT must not be negative''))
          else if offset < 0 then (d, Inl (OtherErr ''OFFSET must not be negative''))
          else
            let selected = filter (matches tsmatch title genres) (movies d);
                ordered = order_by (before key (direction = ''DESC'')) selected
            in (d, Inr (map (\<lambda>r. (int (length selected), r))
                          (take (nat limit) (drop (nat offset) ordered)))))"

section \<open>Filters and pagination metadata\<close>

text \<open>
  The struct \<^verbatim>\<open>Filters\<close> with the fields the handler sets. Go's \<^verbatim>\<open>int\<close> is modelled by
  \<open>int\<close>: \<^verbatim>\<open>ValidateFilters\<close> keeps the page under ten million and the page size under a
  hundred, far from the range where the product of the two could wrap around.
\<close>

record Filters =
  Page :: int
  PageSize :: int
  Sort :: string
  SortSafelist :: "string list"

text \<open>
  Modelled from the spec: the methods \<^verbatim>\<open>sortColumn\<close>, \<^verbatim>\<open>sortDirection\<close>, \<^verbatim>\<open>limit\<close> and
  \<^verbatim>\<open>offset\<close> of \<^verbatim>\<open>Filters\<close> are not among the sources. The spec: the sort key names column
  and direction, a leading \<^verbatim>\<open>-\<close> meaning descending; the store checks it against the
  safelist before it builds the query from it; the page is
  \<^verbatim>\<open>LIMIT page_size OFFSET (page-1)*page_size\<close>. \<open>sortColumn\<close> is \<open>None\<close> where the check
  fails.
\<close>

definition sortColumn :: "Filters \<Rightarrow> string option" where
  "sortColumn f =
     (if List.member (SortSafelist f) (Sort f)
      then Some (case Sort f of c # cs \<Rightarrow> (if c = CHR ''-'' then cs else c # cs) | [] \<Rightarrow> [])
      else None)"

definition sortDirection :: "Filters \<Rightarrow> string" where
  "sortDirection f =
     (case Sort f of c # cs \<Rightarrow> (if c = CHR ''-'' then ''DESC'' else ''ASC'') | [] \<Rightarrow> ''ASC'')"

definition limit :: "Filters \<Rightarrow> int" where
  "limit f = PageSize f"

definition offset :: "Filters \<Rightarrow> int" where
  "offset f = (Page f - 1) * PageSize f"

text \<open>
  Modelled from the spec: the struct \<^verbatim>\<open>Metadata\<close> and the function \<^verbatim>\<open>calculateMetadata\<close>
  are not among the sources. The spec: \<open>current_page\<close>, \<open>page_size\<close>, \<open>first_page = 1\<close>,
  \<open>last_page = ceil(total_records / page_size)\<close>, \<open>total_records\<close>; when
  \<open>total_records = 0\<close>, all fields are zero.
\<close>

record Metadata =
  current_page :: int
  page_size :: int
  first_page :: int
  last_page :: int
  total_records :: int

definition empty_Metadata :: Metadata where
  "empty_Metadata =
     \<lparr>current_page = 0, page_size = 0, first_page = 0, last_page = 0, total_records = 0\<rparr>"

definition calculateMetadata :: "int \<Rightarrow> int \<Rightarrow> int \<Rightarrow> Metadata" where
  "calculateMetadata totalRecords page pageSize =
     (if totalRecords = 0 then empty_Metadata
      else \<lparr>current_page = page, page_size = pageSize, first_page = 1,
            last_page = \<lceil>real_of_int totalRecords / real_of_int pageSize\<rceil>,
            total_records = totalRecords\<rparr>)"

section \<open>The store\<close>

text \<open>
  The methods of \<^verbatim>\<open>MovieModel\<close> (the argument \<^verbatim>\<open>id\<close> is \<open>id'\<close> here). Each takes the backend and returns it with the result. A
  method that writes through its \<^verbatim>\<open>*Movie\<close> argument returns the movie as the caller finds
  it afterwards; on an error the caller's movie is as it was.
\<close>

definition Insert :: "string option \<Rightarrow> Movie \<Rightarrow> db \<Rightarrow> db \<times> (error + Movie)" where
  "Insert fault movie d =
     (let (d, r) = request fault
                     (sql_insert (Title movie) (Year movie) (Runtime movie) (Genres movie)) d
      in case Scan r of
           Inl err \<Rightarrow> (d, Inl (Backend err))
         | Inr (id', created_at, version) \<Rightarrow>
             (d, Inr (movie\<lparr>ID := id', CreatedAt := created_at, Version := version\<rparr>)))"

definition Get :: "string option \<Rightarrow> int64 \<Rightarrow> db \<Rightarrow> db \<times> (error + Movie)" where
  "Get fault id' d =
     (if sint id' < 1 then (d, Inl ErrRecordNotFound)
      else
        let (d, r) = request fault (sql_select id') d
        in case Scan r of
             Inl err \<Rightarrow> (if err = ErrNoRows then (d, Inl ErrRecordNotFound)
                          else (d, Inl (Backend err)))
           | Inr movie \<Rightarrow> (d, Inr movie))"

definition Update :: "string option \<Rightarrow> Movie \<Rightarrow> db \<Rightarrow> db \<times> (error + Movie)" where
  "Update fault movie d =
     (let (d, r) = request fault
                     (sql_update (Title movie) (Year movie) (Runtime movie) (Genres movie)
                        (ID movie) (Version movie)) d
      in case Scan r of
           Inl err \<Rightarrow> (if err = ErrNoRows then (d, Inl ErrEditConflict)
                        else (d, Inl (Backend err)))
         | Inr version \<Rightarrow> (d, Inr (movie\<lparr>Version := version\<rparr>)))"

text \<open>
  \<^verbatim>\<open>Delete\<close> returns only an error: \<open>None\<close> is \<^verbatim>\<open>nil\<close>. \<open>fault\<close> is the failure of
  \<^verbatim>\<open>ExecContext\<close>, \<open>fault'\<close> that of \<^verbatim>\<open>RowsAffected\<close> on its result.
\<close>

definition RowsAffected :: "string option \<Rightarrow> nat \<Rightarrow> sql_error + nat" where
  "RowsAffected fault n = (case fault of Some msg \<Rightarrow> Inl (OtherErr msg) | None \<Rightarrow> Inr n)"

definition Delete :: "string option \<Rightarrow> string option \<Rightarrow> int64 \<Rightarrow> db \<Rightarrow> db \<times> error option" where
  "Delete fault fault' id' d =
     (if sint id' < 1 then (d, Some ErrRecordNotFound)
      else
        let (d, r) = request fault (sql_delete id') d
        in case r of
             Inl err \<Rightarrow> (d, Some (Backend err))
           | Inr result \<Rightarrow>
               (case RowsAffected fault' result of
                  Inl err \<Rightarrow> (d, Some (Backend err))
                | Inr rowsAffected \<Rightarrow>
                    if rowsAffected = 0 then (d, Some ErrRecordNotFound) else (d, None)))"

text \<open>
  The loop of \<^verbatim>\<open>GetAll\<close> over the result set: each row is scanned into \<^verbatim>\<open>totalRecords\<close> and
  a new movie, which is appended to \<^verbatim>\<open>movies\<close>.
\<close>

fun scan_rows :: "(int \<times> Movie) list \<Rightarrow> int \<Rightarrow> Movie list \<Rightarrow> int \<times> Movie list" where
  "scan_rows [] totalRecords ms = (totalRecords, ms)"
| "scan_rows ((n, movie) # rest) totalRecords ms = scan_rows rest n (ms @ [movie])"

text \<open>
  \<^verbatim>\<open>GetAll\<close>. \<open>fault\<close> is the failure of \<^verbatim>\<open>QueryContext\<close>, \<open>fault'\<close> the error that
  \<^verbatim>\<open>rows.Err()\<close> reports after the loop. A row of this result set always scans into the
  destinations, which have the types of its columns. Where the sort key fails the
  safelist check, no query is built.
\<close>

definition GetAll ::
  "(string \<Rightarrow> string \<Rightarrow> bool) \<Rightarrow> (string \<Rightarrow> (Movie \<Rightarrow> 'k::linorder) option)
     \<Rightarrow> string option \<Rightarrow> string option \<Rightarrow> string \<Rightarrow> string list \<Rightarrow> Filters \<Rightarrow> db
     \<Rightarrow> db \<times> (error + Movie list \<times> Metadata)" where
  "GetAll tsmatch colkey fault fault' title genres filters d =
     (case sortColumn filters of
        None \<Rightarrow> (d, Inl UnsafeSortParameter)
      | Some column \<Rightarrow>
          let (d, r) = request fault
                         (sql_select_page tsmatch colkey column (sortDirection filters)
                            title genres (limit filters) (offset filters)) d
          in case r of
               Inl err \<Rightarrow> (d, Inl (Backend err))
             | Inr rows \<Rightarrow>
                 let (totalRecords, ms) = scan_rows rows 0 []
                 in case fault' of
                      Some msg \<Rightarrow> (d, Inl (Backend (OtherErr msg)))
                    | None \<Rightarrow>
                        (d, Inr (ms, calculateMetadata totalRecords (Page filters)
                                       (PageSize filters))))"

text \<open>
  The rows a call of \<^verbatim>\<open>GetAll\<close> returns when neither the query nor the iteration fails;
  the empty list where the call returns an error.
\<close>

definition listed ::
  "(string \<Rightarrow> string \<Rightarrow> bool) \<Rightarrow> (string \<Rightarrow> (Movie \<Rightarrow> 'k::linorder) option)
     \<Rightarrow> string \<Rightarrow> string list \<Rightarrow> Filters \<Rightarrow> db \<Rightarrow> Movie list" where
  "listed tsmatch colkey title genres filters d =
     (case snd (GetAll tsmatch colkey None None title genres filters d) of
        Inl err \<Rightarrow> []
      | Inr (ms, metadata) \<Rightarrow> ms)"

text \<open>
  The strict order that \<^verbatim>\<open>ORDER BY <column> <direction>, id ASC\<close> asks for: row \<open>a\<close> comes
  before row \<open>b\<close> when its column value comes first in the direction, or the values are
  equal and its id is smaller.
\<close>

definition precedes :: "(Movie \<Rightarrow> 'k::linorder) \<Rightarrow> bool \<Rightarrow> Movie \<Rightarrow> Movie \<Rightarrow> bool" where
  "precedes key desc a b =
     (if key a = key b then sint (ID a) < sint (ID b)
      else if desc then key b < key a
      else key a < key b)"

text \<open>
  A caller's successive updates of one movie, as \<^verbatim>\<open>updateMovieHandler\<close> makes one: before
  each call the caller sets the four mutable fields and leaves the id and the version as
  they are, after the first call as the call before returned them. Each call has its own
  \<open>fault\<close>. The run stops at the first error.
\<close>

fun Updates ::
  "(string option \<times> string \<times> int32 \<times> int32 \<times> string list option) list \<Rightarrow> Movie \<Rightarrow> db
     \<Rightarrow> db \<times> (error + Movie)" where
  "Updates [] movie d = (d, Inr movie)"
| "Updates ((fault, title, year, runtime, genres) # rest) movie d =
     (case Update fault
             (movie\<lparr>Title := title, Year := year, Runtime := runtime, Genres := genres\<rparr>) d of
        (d, Inl err) \<Rightarrow> (d, Inl err)
      | (d, Inr movie) \<Rightarrow> Updates rest movie d)"

section \<open>Validation: what a run of the checks records\<close>

lemma dom_Check:
  "dom (Errors (Check pick ok key message v)) = dom (Errors v) \<union> {k. k = key \<and> \<not> ok}"
  by (auto simp: Check_def AddError_def split: option.splits)

lemma failed_field_set: "(if ok then {} else {key}) = {k. k = key \<and> \<not> ok}"
  by auto

lemma union_failed:
  "D \<union> {k. k = t \<and> \<not> a1} \<union> {k. k = t \<and> \<not> a2}
     \<union> {k. k = y \<and> \<not> b1} \<union> {k. k = y \<and> \<not> b2} \<union> {k. k = y \<and> \<not> b3}
     \<union> {k. k = r \<and> \<not> c1} \<union> {k. k = r \<and> \<not> c2}
     \<union> {k. k = g \<and> \<not> d1} \<union> {k. k = g \<and> \<not> d2} \<union> {k. k = g \<and> \<not> d3}
     \<union> {k. k = g \<and> \<not> d4}
   = D \<union> {k. k = t \<and> \<not> (a1 \<and> a2)} \<union> {k. k = y \<and> \<not> (b1 \<and> b2 \<and> b3)}
     \<union> {k. k = r \<and> \<not> (c1 \<and> c2)} \<union> {k. k = g \<and> \<not> (d1 \<and> d2 \<and> d3 \<and> d4)}"
  by blast

lemma dom_ValidateMovie:
  "dom (Errors (ValidateMovie pick year_now v movie)) =
     dom (Errors v)
     \<union> (if title_ok movie then {} else {''title''})
     \<union> (if year_ok year_now movie then {} else {''year''})
     \<union> (if runtime_ok movie then {} else {''runtime''})
     \<union> (if genres_ok movie then {} else {''genres''})"
  unfolding ValidateMovie_def Let_def dom_Check failed_field_set
  unfolding title_ok_def year_ok_def runtime_ok_def genres_ok_def
  by (rule union_failed)

lemma Valid_iff_dom: "Valid v \<longleftrightarrow> dom (Errors v) = {}"
  by (simp add: Valid_def)

lemma genres_ok_iff:
  "genres_ok movie \<longleftrightarrow>
     (\<exists>gs. Genres movie = Some gs \<and> 1 \<le> length gs \<and> length gs \<le> 5 \<and> distinct gs)"
  by (cases "Genres movie") (simp_all add: genres_ok_def len_def Unique_def)

text \<open>
  Claim C9. \<^verbatim>\<open>ValidateMovie\<close> on a fresh validator records every field one of whose
  constraints fails, not only the first such field, under the name of the field; and the
  error map stays empty exactly when all constraints hold: the title is not empty and at
  most 500 bytes long; the year is not zero, at least 1888 and at most the current year;
  the runtime is not zero and positive; the genres are not nil, between 1 and 5, and
  distinct. The map has one reason for a field, so two failed constraints of one field
  leave one entry.
\<close>

theorem ValidateMovie_records_every_failed_field:
  "dom (Errors (ValidateMovie pick year_now New movie)) =
       (if title_ok movie then {} else {''title''})
     \<union> (if year_ok year_now movie then {} else {''year''})
     \<union> (if runtime_ok movie then {} else {''runtime''})
     \<union> (if genres_ok movie then {} else {''genres''})
   \<and> (Valid (ValidateMovie pick year_now New movie) \<longleftrightarrow>
        Title movie \<noteq> '''' \<and> length (Title movie) \<le> 500
      \<and> Year movie \<noteq> 0 \<and> 1888 \<le> sint (Year movie) \<and> sint (Year movie) \<le> sint year_now
      \<and> Runtime movie \<noteq> 0 \<and> 0 < sint (Runtime movie)
      \<and> (\<exists>gs. Genres movie = Some gs \<and> 1 \<le> length gs \<and> length gs \<le> 5 \<and> distinct gs))"
proof -
  have d: "dom (Errors (ValidateMovie pick year_now New movie)) =
       (if title_ok movie then {} else {''title''})
     \<union> (if year_ok year_now movie then {} else {''year''})
     \<union> (if runtime_ok movie then {} else {''runtime''})
     \<union> (if genres_ok movie then {} else {''genres''})"
    by (simp add: dom_ValidateMovie New_def)
  have "Valid (ValidateMovie pick year_now New movie) \<longleftrightarrow>
          title_ok movie \<and> year_ok year_now movie \<and> runtime_ok movie \<and> genres_ok movie"
    unfolding Valid_iff_dom d by (simp split: if_splits)
  then have "Valid (ValidateMovie pick year_now New movie) \<longleftrightarrow>
        Title movie \<noteq> '''' \<and> length (Title movie) \<le> 500
      \<and> Year movie \<noteq> 0 \<and> 1888 \<le> sint (Year movie) \<and> sint (Year movie) \<le> sint year_now
      \<and> Runtime movie \<noteq> 0 \<and> 0 < sint (Runtime movie)
      \<and> (\<exists>gs. Genres movie = Some gs \<and> 1 \<le> length gs \<and> length gs \<le> 5 \<and> distinct gs)"
    by (simp add: title_ok_def year_ok_def runtime_ok_def genres_ok_iff conj_assoc)
  with d show ?thesis by blast
qed

theorem ValidateMovie_records_every_failed_field_witness:
  "Valid (ValidateMovie (\<lambda>old new. old) 2026 New
      \<lparr>ID = 0, CreatedAt = 0, Title = ''Casablanca'', Year = 1942, Runtime = 102,
       Genres = Some [''drama'', ''romance'', ''war''], Version = 0\<rparr>)
   \<and> dom (Errors (ValidateMovie (\<lambda>old new. old) 2026 New
      \<lparr>ID = 0, CreatedAt = 0, Title = '''', Year = 1800, Runtime = 0,
       Genres = Some [''war'', ''war''], Version = 0\<rparr>))
     = {''title'', ''year'', ''runtime'', ''genres''}"
proof -
  have a: "Valid (ValidateMovie (\<lambda>old new. old) 2026 New
      \<lparr>ID = 0, CreatedAt = 0, Title = ''Casablanca'', Year = 1942, Runtime = 102,
       Genres = Some [''drama'', ''romance'', ''war''], Version = 0\<rparr>)"
    using ValidateMovie_records_every_failed_field
      [of "\<lambda>old new. old" 2026 "\<lparr>ID = 0, CreatedAt = 0, Title = ''Casablanca'', Year = 1942,
        Runtime = 102, Genres = Some [''drama'', ''romance'', ''war''], Version = 0\<rparr>"]
    by simp
  have b: "dom (Errors (ValidateMovie (\<lambda>old new. old) 2026 New
      \<lparr>ID = 0, CreatedAt = 0, Title = '''', Year = 1800, Runtime = 0,
       Genres = Some [''war'', ''war''], Version = 0\<rparr>))
     = {''title'', ''year'', ''runtime'', ''genres''}"
    using ValidateMovie_records_every_failed_field
      [of "\<lambda>old new. old" 2026 "\<lparr>ID = 0, CreatedAt = 0, Title = '''', Year = 1800,
        Runtime = 0, Genres = Some [''war'', ''war''], Version = 0\<rparr>"]
    by (simp add: title_ok_def year_ok_def runtime_ok_def genres_ok_def len_def Unique_def
        insert_commute)
  from a b show ?thesis by simp
qed

section \<open>Requests and scans\<close>

lemma request_Some:
  "request (Some msg) stmt d = (d\<lparr>requests := requests d + 1\<rparr>, Inl (OtherErr msg))"
  by (simp add: request_def)

lemma request_None: "request None stmt d = stmt (d\<lparr>requests := requests d + 1\<rparr>)"
  by (simp add: request_def)

lemma Scan_simps:
  "Scan (Inl err) = Inl err" "Scan (Inr []) = Inl ErrNoRows" "Scan (Inr (x # xs)) = Inr x"
  by (simp_all add: Scan_def)

lemma Scan_map_filter:
  "Scan (Inr (map f (filter P xs))) =
     (if list_ex P xs then Inr (f (hd (filter P xs))) else Inl ErrNoRows)"
  by (cases "filter P xs") (auto simp: Scan_def list_ex_iff filter_empty_conv dest: filter_eq_ConsD)

lemma hd_filter: "list_ex P xs \<Longrightarrow> P (hd (filter P xs)) \<and> hd (filter P xs) \<in> set xs"
  by (induction xs) auto

lemma Scan_filter:
  "Scan (Inr (filter P xs)) = (if list_ex P xs then Inr (hd (filter P xs)) else Inl ErrNoRows)"
  using Scan_map_filter [of "\<lambda>x. x" P xs] by simp

section \<open>Update\<close>

lemma Update_fault:
  "Update (Some msg) movie d = (d\<lparr>requests := requests d + 1\<rparr>, Inl (Backend (OtherErr msg)))"
  by (simp add: Update_def request_Some Scan_simps)

lemma map_miss:
  "\<not> list_ex P xs \<Longrightarrow> map (\<lambda>r. if P r then f r else r) xs = xs"
  by (intro map_idI) (auto simp: list_ex_iff)

lemma Update_miss:
  assumes "\<not> list_ex (\<lambda>r. ID r = ID movie \<and> Version r = Version movie) (movies d)"
  shows "Update None movie d = (d\<lparr>requests := requests d + 1\<rparr>, Inl ErrEditConflict)"
proof -
  have "\<not> list_ex (\<lambda>r. (ID r = ID movie \<and> Version r = Version movie) \<and> sint (Version r) = 2147483647)
          (movies d)"
    using assms by (auto simp: list_ex_iff)
  then show ?thesis
    using assms
    by (simp add: Update_def request_None sql_update_def Scan_map_filter map_miss Let_def)
qed

lemma Update_overflow:
  assumes "list_ex (\<lambda>r. ID r = ID movie \<and> Version r = Version movie) (movies d)"
    and "sint (Version movie) = 2147483647"
  shows "Update None movie d =
           (d\<lparr>requests := requests d + 1\<rparr>, Inl (Backend (OtherErr ''integer out of range'')))"
proof -
  have "list_ex (\<lambda>r. (ID r = ID movie \<and> Version r = Version movie) \<and> sint (Version r) = 2147483647)
          (movies d)"
    using assms by (auto simp: list_ex_iff)
  then show ?thesis
    by (simp add: Update_def request_None sql_update_def Scan_simps Let_def)
qed

lemma Update_hit:
  assumes "list_ex (\<lambda>r. ID r = ID movie \<and> Version r = Version movie) (movies d)"
    and "sint (Version movie) \<noteq> 2147483647"
  shows "Update None movie d =
           (d\<lparr>requests := requests d + 1,
              movies := map (\<lambda>r. if ID r = ID movie \<and> Version r = Version movie
                                  then r\<lparr>Title := Title movie, Year := Year movie,
                                         Runtime := Runtime movie, Genres := Genres movie,
                                         Version := Version r + 1\<rparr>
                                  else r) (movies d)\<rparr>,
            Inr (movie\<lparr>Version := Version movie + 1\<rparr>))"
proof -
  have "\<not> list_ex (\<lambda>r. (ID r = ID movie \<and> Version r = Version movie) \<and> sint (Version r) = 2147483647)
          (movies d)"
    using assms by (auto simp: list_ex_iff)
  moreover have "Version (hd (filter (\<lambda>r. ID r = ID movie \<and> Version r = Version movie) (movies d)))
                   = Version movie"
    using hd_filter [OF assms(1)] by simp
  ultimately show ?thesis
    using assms(1)
    by (simp add: Update_def request_None sql_update_def Scan_map_filter Let_def)
qed

lemma sint_succ32:
  assumes "sint (v :: int32) \<noteq> 2147483647"
  shows "sint (v + 1) = sint v + 1"
proof -
  have lo: "- (2 ^ 31) \<le> sint v" and hi: "sint v < 2 ^ 31"
    using sint_ge [of v] sint_lt [of v] by simp_all
  have "sint (v + 1) = signed_take_bit 31 (sint v + 1)"
    by (simp add: sint_word_ariths)
  also have "\<dots> = sint v + 1"
    using lo hi assms by (intro signed_take_bit_int_eq_self) simp_all
  finally show ?thesis .
qed

lemma Update_answer:
  "Update fault movie d =
     (fst (request fault (sql_update (Title movie) (Year movie) (Runtime movie) (Genres movie)
             (ID movie) (Version movie)) d),
      case Scan (snd (request fault (sql_update (Title movie) (Year movie) (Runtime movie)
                        (Genres movie) (ID movie) (Version movie)) d)) of
        Inl err \<Rightarrow> Inl (if err = ErrNoRows then ErrEditConflict else Backend err)
      | Inr version \<Rightarrow> Inr (movie\<lparr>Version := version\<rparr>))"
  by (simp add: Update_def split: prod.splits sum.splits)

text \<open>
  Claim C1. Every call of \<^verbatim>\<open>Update\<close> ends in exactly one of three ways. Applied: the
  statement ran, a row had both the id and the version of the caller's movie, every such
  row got the four fields of the movie and its version raised by exactly 1, and the call
  returns the movie with the new version. Conflict: the statement ran, no row had that id
  and that version, the table is as it was and the call returns \<open>ErrEditConflict\<close>. Failed:
  the request gave an error other than \<^verbatim>\<open>sql.ErrNoRows\<close>, and the call returns that error
  as it came. \<^verbatim>\<open>Update\<close> returns no other error.
\<close>

theorem Update_three_outcomes:
  assumes run: "Update fault movie d = (d', res)"
  defines "matched \<equiv> (\<exists>r\<in>set (movies d). ID r = ID movie \<and> Version r = Version movie)"
  defines "applied \<equiv>
     (fault = None \<and> matched \<and> res = Inr (movie\<lparr>Version := Version movie + 1\<rparr>) \<and>
      sint (Version movie + 1) = sint (Version movie) + 1 \<and>
      movies d' = map (\<lambda>r. if ID r = ID movie \<and> Version r = Version movie
                            then r\<lparr>Title := Title movie, Year := Year movie,
                                   Runtime := Runtime movie, Genres := Genres movie,
                                   Version := Version r + 1\<rparr>
                            else r) (movies d))"
  defines "conflict \<equiv>
     (fault = None \<and> \<not> matched \<and> res = Inl ErrEditConflict \<and> movies d' = movies d)"
  defines "failed \<equiv>
     (\<exists>err. err \<noteq> ErrNoRows \<and> res = Inl (Backend err) \<and>
        Scan (snd (request fault (sql_update (Title movie) (Year movie) (Runtime movie)
                     (Genres movie) (ID movie) (Version movie)) d)) = Inl err)"
  shows "((applied \<and> \<not> conflict \<and> \<not> failed) \<or> (\<not> applied \<and> conflict \<and> \<not> failed) \<or>
          (\<not> applied \<and> \<not> conflict \<and> failed)) \<and>
         res \<noteq> Inl ErrRecordNotFound \<and> res \<noteq> Inl UnsafeSortParameter \<and>
         res \<noteq> Inl (Backend ErrNoRows)"
proof (cases fault)
  case (Some msg)
  with run have "res = Inl (Backend (OtherErr msg))"
    by (simp add: Update_fault)
  moreover have "Scan (snd (request fault (sql_update (Title movie) (Year movie) (Runtime movie)
                     (Genres movie) (ID movie) (Version movie)) d)) = Inl (OtherErr msg)"
    using Some by (simp add: request_Some Scan_simps)
  ultimately show ?thesis
    using Some by (simp add: applied_def conflict_def failed_def)
next
  case None
  note fault = None
  show ?thesis
  proof (cases matched)
    case False
    then have miss: "\<not> list_ex (\<lambda>r. ID r = ID movie \<and> Version r = Version movie) (movies d)"
      by (simp add: matched_def list_ex_iff)
    from run have "res = Inl ErrEditConflict" "movies d' = movies d"
      using Update_miss [OF miss] fault by auto
    then show ?thesis
      using False fault by (simp add: applied_def conflict_def failed_def)
  next
    case True
    then have hit: "list_ex (\<lambda>r. ID r = ID movie \<and> Version r = Version movie) (movies d)"
      by (simp add: matched_def list_ex_iff)
    show ?thesis
    proof (cases "sint (Version movie) = 2147483647")
      case True
      from run have res: "res = Inl (Backend (OtherErr ''integer out of range''))"
        using Update_overflow [OF hit True] fault by auto
      have "Scan (snd (request fault (sql_update (Title movie) (Year movie) (Runtime movie)
                     (Genres movie) (ID movie) (Version movie)) d))
              = Inl (OtherErr ''integer out of range'')"
        using Update_overflow [OF hit True] fault
        by (simp add: Update_answer split: sum.splits if_splits)
      with res show ?thesis
        using \<open>matched\<close> by (simp add: applied_def conflict_def failed_def)
    next
      case False
      from run have "res = Inr (movie\<lparr>Version := Version movie + 1\<rparr>)"
        "movies d' = map (\<lambda>r. if ID r = ID movie \<and> Version r = Version movie
                            then r\<lparr>Title := Title movie, Year := Year movie,
                                   Runtime := Runtime movie, Genres := Genres movie,
                                   Version := Version r + 1\<rparr>
                            else r) (movies d)"
        using Update_hit [OF hit False] fault by auto
      then show ?thesis
        using \<open>matched\<close> fault sint_succ32 [OF False]
        by (simp add: applied_def conflict_def failed_def)
    qed
  qed
qed

theorem Update_three_outcomes_witness:
  "Update None
     \<lparr>ID = 1, CreatedAt = 0, Title = ''Beta'', Year = 2001, Runtime = 91,
      Genres = Some [''drama''], Version = 1\<rparr>
     \<lparr>movies = [\<lparr>ID = 1, CreatedAt = 0, Title = ''Alpha'', Year = 2000, Runtime = 90,
                 Genres = Some [''drama''], Version = 1\<rparr>],
      seq = 2, clock = 0, requests = 0\<rparr>
   = (\<lparr>movies = [\<lparr>ID = 1, CreatedAt = 0, Title = ''Beta'', Year = 2001, Runtime = 91,
                  Genres = Some [''drama''], Version = 2\<rparr>],
       seq = 2, clock = 0, requests = 1\<rparr>,
      Inr \<lparr>ID = 1, CreatedAt = 0, Title = ''Beta'', Year = 2001, Runtime = 91,
           Genres = Some [''drama''], Version = 2\<rparr>)
   \<and> sint (1 + 1 :: int32) = sint (1 :: int32) + 1"
proof -
  have run: "Update None
     \<lparr>ID = 1, CreatedAt = 0, Title = ''Beta'', Year = 2001, Runtime = 91,
      Genres = Some [''drama''], Version = 1\<rparr>
     \<lparr>movies = [\<lparr>ID = 1, CreatedAt = 0, Title = ''Alpha'', Year = 2000, Runtime = 90,
                 Genres = Some [''drama''], Version = 1\<rparr>],
      seq = 2, clock = 0, requests = 0\<rparr>
   = (\<lparr>movies = [\<lparr>ID = 1, CreatedAt = 0, Title = ''Beta'', Year = 2001, Runtime = 91,
                  Genres = Some [''drama''], Version = 2\<rparr>],
       seq = 2, clock = 0, requests = 1\<rparr>,
      Inr \<lparr>ID = 1, CreatedAt = 0, Title = ''Beta'', Year = 2001, Runtime = 91,
           Genres = Some [''drama''], Version = 2\<rparr>)"
    by (simp add: Update_def request_def sql_update_def Scan_def Let_def)
  show ?thesis
    using Update_three_outcomes [OF run] run by simp
qed

section \<open>Get\<close>

text \<open>
  Claim C7. \<^verbatim>\<open>Get\<close> with an id under 1 returns \<open>ErrRecordNotFound\<close> and leaves the backend
  untouched, its count of requests included. With an id of at least 1 it sends one
  request; it returns \<open>ErrRecordNotFound\<close> exactly when the request went through and no
  row has the id; an error of the request is returned as it came; and otherwise it
  returns a row of the table with that id, all seven fields as stored.
\<close>

theorem Get_outcomes:
  assumes run: "Get fault id' d = (d', res)"
  shows "(sint id' < 1 \<longrightarrow> res = Inl ErrRecordNotFound \<and> d' = d)
       \<and> (1 \<le> sint id' \<longrightarrow>
            d' = d\<lparr>requests := requests d + 1\<rparr>
          \<and> (res = Inl ErrRecordNotFound \<longleftrightarrow>
               fault = None \<and> \<not> (\<exists>r\<in>set (movies d). ID r = id'))
          \<and> (\<forall>msg. fault = Some msg \<longrightarrow> res = Inl (Backend (OtherErr msg)))
          \<and> (fault = None \<and> (\<exists>r\<in>set (movies d). ID r = id') \<longrightarrow>
               (\<exists>r\<in>set (movies d). ID r = id' \<and> res = Inr r)))"
proof (cases "sint id' < 1")
  case True
  with run show ?thesis by (simp add: Get_def)
next
  case False
  show ?thesis
  proof (cases fault)
    case (Some msg)
    with run False show ?thesis
      by (auto simp: Get_def request_Some Scan_simps)
  next
    case None
    show ?thesis
    proof (cases "list_ex (\<lambda>r. ID r = id') (movies d)")
      case True
      from hd_filter [OF True] run None False True show ?thesis
        by (auto simp: Get_def request_None sql_select_def Scan_filter)
    next
      case no: False
      with run None False show ?thesis
        by (auto simp: Get_def request_None sql_select_def Scan_filter list_ex_iff)
    qed
  qed
qed

theorem Get_outcomes_witness:
  "Get None 0 \<lparr>movies = [], seq = 1, clock = 0, requests = 0\<rparr>
     = (\<lparr>movies = [], seq = 1, clock = 0, requests = 0\<rparr>, Inl ErrRecordNotFound)
   \<and> Get None 7
       \<lparr>movies = [\<lparr>ID = 7, CreatedAt = 3, Title = ''Alpha'', Year = 2000, Runtime = 90,
                   Genres = Some [''drama''], Version = 1\<rparr>],
        seq = 8, clock = 5, requests = 0\<rparr>
     = (\<lparr>movies = [\<lparr>ID = 7, CreatedAt = 3, Title = ''Alpha'', Year = 2000, Runtime = 90,
                    Genres = Some [''drama''], Version = 1\<rparr>],
         seq = 8, clock = 5, requests = 1\<rparr>,
        Inr \<lparr>ID = 7, CreatedAt = 3, Title = ''Alpha'', Year = 2000, Runtime = 90,
             Genres = Some [''drama''], Version = 1\<rparr>)
   \<and> snd (Get (Some ''timeout'') 7 \<lparr>movies = [], seq = 8, clock = 5, requests = 0\<rparr>)
     = Inl (Backend (OtherErr ''timeout''))"
proof -
  have a: "Get None 0 \<lparr>movies = [], seq = 1, clock = 0, requests = 0\<rparr>
     = (\<lparr>movies = [], seq = 1, clock = 0, requests = 0\<rparr>, Inl ErrRecordNotFound)"
    by (simp add: Get_def)
  have b: "Get None 7
       \<lparr>movies = [\<lparr>ID = 7, CreatedAt = 3, Title = ''Alpha'', Year = 2000, Runtime = 90,
                   Genres = Some [''drama''], Version = 1\<rparr>],
        seq = 8, clock = 5, requests = 0\<rparr>
     = (\<lparr>movies = [\<lparr>ID = 7, CreatedAt = 3, Title = ''Alpha'', Year = 2000, Runtime = 90,
                    Genres = Some [''drama''], Version = 1\<rparr>],
         seq = 8, clock = 5, requests = 1\<rparr>,
        Inr \<lparr>ID = 7, CreatedAt = 3, Title = ''Alpha'', Year = 2000, Runtime = 90,
             Genres = Some [''drama''], Version = 1\<rparr>)"
    by (simp add: Get_def request_def sql_select_def Scan_def)
  have c: "Get (Some ''timeout'') 7 \<lparr>movies = [], seq = 8, clock = 5, requests = 0\<rparr>
     = (\<lparr>movies = [], seq = 8, clock = 5, requests = 1\<rparr>, Inl (Backend (OtherErr ''timeout'')))"
    by (simp add: Get_def request_def Scan_def)
  show ?thesis
    using Get_outcomes [OF a] Get_outcomes [OF b] Get_outcomes [OF c] a b c by simp
qed

section \<open>Delete\<close>

text \<open>
  Claim C8. \<^verbatim>\<open>Delete\<close> with an id under 1 returns \<open>ErrRecordNotFound\<close> and leaves the
  backend untouched. Otherwise it sends one request, which removes the rows with that id
  whatever else they hold; an error of the request or of reading the count of removed
  rows is returned as it came; with the count read, no row removed gives
  \<open>ErrRecordNotFound\<close>, one row removed gives success, and success is given exactly when
  the count is not zero.
\<close>

theorem Delete_outcomes:
  assumes run: "Delete fault fault' id' d = (d', res)"
  shows "(sint id' < 1 \<longrightarrow> res = Some ErrRecordNotFound \<and> d' = d)
       \<and> (1 \<le> sint id' \<longrightarrow>
            requests d' = requests d + 1
          \<and> (\<forall>msg. fault = Some msg \<longrightarrow> res = Some (Backend (OtherErr msg)))
          \<and> (fault = None \<longrightarrow>
               movies d' = filter (\<lambda>r. ID r \<noteq> id') (movies d)
             \<and> (\<forall>msg. fault' = Some msg \<longrightarrow> res = Some (Backend (OtherErr msg)))
             \<and> (fault' = None \<longrightarrow>
                  (length (filter (\<lambda>r. ID r = id') (movies d)) = 0 \<longrightarrow>
                     res = Some ErrRecordNotFound \<and> movies d' = movies d)
                \<and> (length (filter (\<lambda>r. ID r = id') (movies d)) = 1 \<longrightarrow>
                     res = None \<and> length (movies d') + 1 = length (movies d))
                \<and> (res = None \<longleftrightarrow> length (filter (\<lambda>r. ID r = id') (movies d)) \<noteq> 0))))"
proof (cases "sint id' < 1")
  case True
  with run show ?thesis by (simp add: Delete_def)
next
  case False
  have len: "length (filter (\<lambda>r. ID r \<noteq> id') (movies d))
               + length (filter (\<lambda>r. ID r = id') (movies d)) = length (movies d)"
    using sum_length_filter_compl [of "\<lambda>r. ID r = id'" "movies d"] by simp
  have same: "length (filter (\<lambda>r. ID r = id') (movies d)) = 0 \<Longrightarrow>
               filter (\<lambda>r. ID r \<noteq> id') (movies d) = movies d"
    by (simp add: filter_empty_conv filter_id_conv)
  show ?thesis
  proof (cases fault)
    case (Some msg)
    with run False show ?thesis
      by (auto simp: Delete_def request_Some)
  next
    case None
    show ?thesis
    proof (cases fault')
      case (Some msg)
      with run None False show ?thesis
        by (auto simp: Delete_def request_None sql_delete_def RowsAffected_def)
    next
      case none': None
      with run None False len same show ?thesis
        by (auto simp: Delete_def request_None sql_delete_def RowsAffected_def
            split: if_splits)
    qed
  qed
qed

theorem Delete_outcomes_witness:
  "Delete None None 0 \<lparr>movies = [], seq = 1, clock = 0, requests = 0\<rparr>
     = (\<lparr>movies = [], seq = 1, clock = 0, requests = 0\<rparr>, Some ErrRecordNotFound)
   \<and> Delete None None 7
       \<lparr>movies = [\<lparr>ID = 7, CreatedAt = 3, Title = ''Alpha'', Year = 2000, Runtime = 90,
                   Genres = Some [''drama''], Version = 1\<rparr>],
        seq = 8, clock = 5, requests = 0\<rparr>
     = (\<lparr>movies = [], seq = 8, clock = 5, requests = 1\<rparr>, None)
   \<and> Delete None None 9
       \<lparr>movies = [\<lparr>ID = 7, CreatedAt = 3, Title = ''Alpha'', Year = 2000, Runtime = 90,
                   Genres = Some [''drama''], Version = 1\<rparr>],
        seq = 8, clock = 5, requests = 0\<rparr>
     = (\<lparr>movies = [\<lparr>ID = 7, CreatedAt = 3, Title = ''Alpha'', Year = 2000, Runtime = 90,
                   Genres = Some [''drama''], Version = 1\<rparr>],
         seq = 8, clock = 5, requests = 1\<rparr>, Some ErrRecordNotFound)"
proof -
  have a: "Delete None None 0 \<lparr>movies = [], seq = 1, clock = 0, requests = 0\<rparr>
     = (\<lparr>movies = [], seq = 1, clock = 0, requests = 0\<rparr>, Some ErrRecordNotFound)"
    by (simp add: Delete_def)
  have b: "Delete None None 7
       \<lparr>movies = [\<lparr>ID = 7, CreatedAt = 3, Title = ''Alpha'', Year = 2000, Runtime = 90,
                   Genres = Some [''drama''], Version = 1\<rparr>],
        seq = 8, clock = 5, requests = 0\<rparr>
     = (\<lparr>movies = [], seq = 8, clock = 5, requests = 1\<rparr>, None)"
    by (simp add: Delete_def request_def sql_delete_def RowsAffected_def)
  have c: "Delete None None 9
       \<lparr>movies = [\<lparr>ID = 7, CreatedAt = 3, Title = ''Alpha'', Year = 2000, Runtime = 90,
                   Genres = Some [''drama''], Version = 1\<rparr>],
        seq = 8, clock = 5, requests = 0\<rparr>
     = (\<lparr>movies = [\<lparr>ID = 7, CreatedAt = 3, Title = ''Alpha'', Year = 2000, Runtime = 90,
                   Genres = Some [''drama''], Version = 1\<rparr>],
         seq = 8, clock = 5, requests = 1\<rparr>, Some ErrRecordNotFound)"
    by (simp add: Delete_def request_def sql_delete_def RowsAffected_def)
  show ?thesis
    using Delete_outcomes [OF a] Delete_outcomes [OF b] Delete_outcomes [OF c] a b c by simp
qed

section \<open>Insert\<close>

text \<open>
  Claim C10. \<^verbatim>\<open>Insert\<close> sends only the title, year, runtime and genres of the movie: the
  id, creation time and version the caller put into the movie change neither the backend
  nor the result. On success the movie returned has the id, creation time and version the
  server assigned and the caller's title, year, runtime and genres, and it is the row
  added to the table.
\<close>

theorem Insert_binds_only_mutable_fields:
  "Insert fault (movie\<lparr>ID := i, CreatedAt := c, Version := v\<rparr>) d = Insert fault movie d
   \<and> (\<forall>d' movie'. Insert fault movie d = (d', Inr movie') \<longrightarrow>
        movie' = \<lparr>ID = word_of_int (seq d), CreatedAt = clock d, Title = Title movie,
                  Year = Year movie, Runtime = Runtime movie, Genres = Genres movie,
                  Version = version_default\<rparr>
      \<and> movies d' = movies d @ [movie'])"
  by (cases fault)
     (auto simp: Insert_def request_Some request_None sql_insert_def Scan_simps Let_def)

theorem Insert_binds_only_mutable_fields_witness:
  "Insert None
     \<lparr>ID = 99, CreatedAt = 77, Title = ''Alpha'', Year = 2000, Runtime = 90,
      Genres = Some [''drama''], Version = 55\<rparr>
     \<lparr>movies = [], seq = 1, clock = 5, requests = 0\<rparr>
   = (\<lparr>movies = [\<lparr>ID = 1, CreatedAt = 5, Title = ''Alpha'', Year = 2000, Runtime = 90,
                  Genres = Some [''drama''], Version = 1\<rparr>],
       seq = 2, clock = 5, requests = 1\<rparr>,
      Inr \<lparr>ID = 1, CreatedAt = 5, Title = ''Alpha'', Year = 2000, Runtime = 90,
           Genres = Some [''drama''], Version = 1\<rparr>)"
proof -
  have run: "Insert None
     \<lparr>ID = 99, CreatedAt = 77, Title = ''Alpha'', Year = 2000, Runtime = 90,
      Genres = Some [''drama''], Version = 55\<rparr>
     \<lparr>movies = [], seq = 1, clock = 5, requests = 0\<rparr>
   = (\<lparr>movies = [\<lparr>ID = 1, CreatedAt = 5, Title = ''Alpha'', Year = 2000, Runtime = 90,
                  Genres = Some [''drama''], Version = 1\<rparr>],
       seq = 2, clock = 5, requests = 1\<rparr>,
      Inr \<lparr>ID = 1, CreatedAt = 5, Title = ''Alpha'', Year = 2000, Runtime = 90,
           Genres = Some [''drama''], Version = 1\<rparr>)"
    by (simp add: Insert_def request_def sql_insert_def Scan_def Let_def version_default_def)
  show ?thesis
    using Insert_binds_only_mutable_fields
      [where fault = None and i = 0 and c = 0 and v = 0
         and movie = "\<lparr>ID = 99, CreatedAt = 77, Title = ''Alpha'', Year = 2000, Runtime = 90,
                  Genres = Some [''drama''], Version = 55\<rparr>"
         and d = "\<lparr>movies = [], seq = 1, clock = 5, requests = 0\<rparr>"] run
    by simp
qed

section \<open>Versions\<close>

lemma Update_Inr:
  assumes "Update fault movie d = (d', Inr movie')"
  shows "fault = None"
    and "list_ex (\<lambda>r. ID r = ID movie \<and> Version r = Version movie) (movies d)"
    and "sint (Version movie) \<noteq> 2147483647"
    and "movie' = movie\<lparr>Version := Version movie + 1\<rparr>"
    and "movies d' = map (\<lambda>r. if ID r = ID movie \<and> Version r = Version movie
                            then r\<lparr>Title := Title movie, Year := Year movie,
                                   Runtime := Runtime movie, Genres := Genres movie,
                                   Version := Version r + 1\<rparr>
                            else r) (movies d)"
proof -
  show f: "fault = None"
    using assms by (cases fault) (simp_all add: Update_fault)
  show h: "list_ex (\<lambda>r. ID r = ID movie \<and> Version r = Version movie) (movies d)"
    using assms f Update_miss [of movie d] by auto
  show v: "sint (Version movie) \<noteq> 2147483647"
    using assms f Update_overflow [OF h] by auto
  show "movie' = movie\<lparr>Version := Version movie + 1\<rparr>"
    using assms f Update_hit [OF h v] by auto
  show "movies d' = map (\<lambda>r. if ID r = ID movie \<and> Version r = Version movie
                            then r\<lparr>Title := Title movie, Year := Year movie,
                                   Runtime := Runtime movie, Genres := Genres movie,
                                   Version := Version r + 1\<rparr>
                            else r) (movies d)"
    using assms f Update_hit [OF h v] by auto
qed

lemma Update_Inr_row:
  assumes "Update fault movie d = (d', Inr movie')"
  shows "\<exists>r\<in>set (movies d'). ID r = ID movie' \<and> Version r = Version movie'"
proof -
  from Update_Inr(2) [OF assms] obtain r where
    r: "r \<in> set (movies d)" "ID r = ID movie" "Version r = Version movie"
    by (auto simp: list_ex_iff)
  let ?r' = "r\<lparr>Title := Title movie, Year := Year movie, Runtime := Runtime movie,
               Genres := Genres movie, Version := Version r + 1\<rparr>"
  have "?r' \<in> set (movies d')"
    unfolding Update_Inr(5) [OF assms] using r by (auto simp: image_iff intro!: bexI [of _ r])
  then show ?thesis
    using r Update_Inr(4) [OF assms] by (intro bexI [of _ ?r']) simp_all
qed

lemma Updates_Inr:
  "Updates us movie d = (d', Inr movie') \<Longrightarrow>
     sint (Version movie') = sint (Version movie) + int (length us) \<and> ID movie' = ID movie \<and>
     (us \<noteq> [] \<longrightarrow> (\<exists>r\<in>set (movies d'). ID r = ID movie \<and> Version r = Version movie'))"
proof (induction us arbitrary: movie d)
  case Nil
  then show ?case by simp
next
  case (Cons u us)
  obtain fault title year runtime genres where u: "u = (fault, title, year, runtime, genres)"
    by (cases u)
  let ?m = "movie\<lparr>Title := title, Year := year, Runtime := runtime, Genres := genres\<rparr>"
  from Cons.prems u obtain d1 m1 where
    first: "Update fault ?m d = (d1, Inr m1)" and rest: "Updates us m1 d1 = (d', Inr movie')"
    by (auto split: prod.splits sum.splits)
  have m1: "m1 = ?m\<lparr>Version := Version ?m + 1\<rparr>" and v: "sint (Version ?m) \<noteq> 2147483647"
    using Update_Inr [OF first] by simp_all
  have step: "sint (Version m1) = sint (Version movie) + 1" "ID m1 = ID movie"
    using m1 sint_succ32 [OF v] by simp_all
  from Cons.IH [OF rest] step have
    "sint (Version movie') = sint (Version movie) + int (length (u # us))" "ID movie' = ID movie"
    by simp_all
  moreover have "\<exists>r\<in>set (movies d'). ID r = ID movie \<and> Version r = Version movie'"
  proof (cases "us = []")
    case True
    with rest have "d' = d1" "movie' = m1" by simp_all
    with Update_Inr_row [OF first] step show ?thesis by simp
  next
    case False
    with Cons.IH [OF rest] step show ?thesis by simp
  qed
  ultimately show ?case by simp
qed

lemma Update_stale:
  assumes "\<forall>r\<in>set (movies d). ID r = ID movie \<longrightarrow> Version r \<noteq> Version movie"
    and "Update fault movie d = (d', res)"
  shows "movies d' = movies d \<and> (\<forall>m. res \<noteq> Inr m) \<and> (fault = None \<longrightarrow> res = Inl ErrEditConflict)"
proof -
  have miss: "\<not> list_ex (\<lambda>r. ID r = ID movie \<and> Version r = Version movie) (movies d)"
    using assms(1) by (auto simp: list_ex_iff)
  show ?thesis
    using assms(2) Update_miss [OF miss] by (cases fault) (auto simp: Update_fault)
qed

lemma Insert_Inr:
  "Insert fault movie d = (d', Inr movie') \<Longrightarrow>
     Version movie' = 1 \<and> movies d' = movies d @ [movie']"
  by (cases fault)
     (auto simp: Insert_def request_Some request_None sql_insert_def Scan_simps Let_def
        version_default_def split: if_splits)

text \<open>
  Claim C2. A row starts at version 1: a successful \<^verbatim>\<open>Insert\<close> returns version 1 and has
  stored the row with it. A run of N successful updates of a movie, each with the version
  the one before returned, ends at the first version plus N, read as integers (no
  wrap-around), and the table then holds a row of that id with that version. An update
  whose version is not the version of any row with its id never succeeds and leaves the
  table as it was; where the request goes through it returns \<open>ErrEditConflict\<close>.
\<close>

theorem version_counts_successful_updates:
  "(\<forall>d' movie'. Insert fault movie d = (d', Inr movie') \<longrightarrow>
      Version movie' = 1 \<and> movies d' = movies d @ [movie'])
   \<and> (\<forall>d' movie'. Updates us movie d = (d', Inr movie') \<longrightarrow>
        sint (Version movie') = sint (Version movie) + int (length us) \<and> ID movie' = ID movie \<and>
        (us \<noteq> [] \<longrightarrow> (\<exists>r\<in>set (movies d'). ID r = ID movie \<and> Version r = Version movie')))
   \<and> (\<forall>d' res. (\<forall>r\<in>set (movies d). ID r = ID movie \<longrightarrow> Version r \<noteq> Version movie) \<and>
        Update fault movie d = (d', res) \<longrightarrow>
        movies d' = movies d \<and> (\<forall>m. res \<noteq> Inr m) \<and> (fault = None \<longrightarrow> res = Inl ErrEditConflict))"
  using Insert_Inr Updates_Inr Update_stale by blast

theorem version_counts_successful_updates_witness:
  "Updates [(None, ''Beta'', 2001, 91, Some [''drama'']), (None, ''Gamma'', 2002, 92, None)]
     \<lparr>ID = 1, CreatedAt = 0, Title = ''Alpha'', Year = 2000, Runtime = 90,
      Genres = Some [''drama''], Version = 1\<rparr>
     \<lparr>movies = [\<lparr>ID = 1, CreatedAt = 0, Title = ''Alpha'', Year = 2000, Runtime = 90,
                 Genres = Some [''drama''], Version = 1\<rparr>],
      seq = 2, clock = 0, requests = 0\<rparr>
   = (\<lparr>movies = [\<lparr>ID = 1, CreatedAt = 0, Title = ''Gamma'', Year = 2002, Runtime = 92,
                  Genres = None, Version = 3\<rparr>],
       seq = 2, clock = 0, requests = 2\<rparr>,
      Inr \<lparr>ID = 1, CreatedAt = 0, Title = ''Gamma'', Year = 2002, Runtime = 92,
           Genres = None, Version = 3\<rparr>)
   \<and> sint (3 :: int32) = sint (1 :: int32) + 2
   \<and> Update None
       \<lparr>ID = 1, CreatedAt = 0, Title = ''Delta'', Year = 2000, Runtime = 90,
        Genres = Some [''drama''], Version = 1\<rparr>
       \<lparr>movies = [\<lparr>ID = 1, CreatedAt = 0, Title = ''Gamma'', Year = 2002, Runtime = 92,
                   Genres = None, Version = 3\<rparr>],
        seq = 2, clock = 0, requests = 2\<rparr>
     = (\<lparr>movies = [\<lparr>ID = 1, CreatedAt = 0, Title = ''Gamma'', Year = 2002, Runtime = 92,
                    Genres = None, Version = 3\<rparr>],
         seq = 2, clock = 0, requests = 3\<rparr>,
        Inl ErrEditConflict)
   \<and> Version (projr (snd (Insert None
        \<lparr>ID = 0, CreatedAt = 0, Title = ''Alpha'', Year = 2000, Runtime = 90,
         Genres = Some [''drama''], Version = 0\<rparr>
        \<lparr>movies = [], seq = 1, clock = 5, requests = 0\<rparr>))) = 1"
proof -
  have a: "Updates [(None, ''Beta'', 2001, 91, Some [''drama'']), (None, ''Gamma'', 2002, 92, None)]
     \<lparr>ID = 1, CreatedAt = 0, Title = ''Alpha'', Year = 2000, Runtime = 90,
      Genres = Some [''drama''], Version = 1\<rparr>
     \<lparr>movies = [\<lparr>ID = 1, CreatedAt = 0, Title = ''Alpha'', Year = 2000, Runtime = 90,
                 Genres = Some [''drama''], Version = 1\<rparr>],
      seq = 2, clock = 0, requests = 0\<rparr>
   = (\<lparr>movies = [\<lparr>ID = 1, CreatedAt = 0, Title = ''Gamma'', Year = 2002, Runtime = 92,
                  Genres = None, Version = 3\<rparr>],
       seq = 2, clock = 0, requests = 2\<rparr>,
      Inr \<lparr>ID = 1, CreatedAt = 0, Title = ''Gamma'', Year = 2002, Runtime = 92,
           Genres = None, Version = 3\<rparr>)"
    by (simp add: Update_def request_def sql_update_def Scan_def Let_def)
  have b: "Update None
       \<lparr>ID = 1, CreatedAt = 0, Title = ''Delta'', Year = 2000, Runtime = 90,
        Genres = Some [''drama''], Version = 1\<rparr>
       \<lparr>movies = [\<lparr>ID = 1, CreatedAt = 0, Title = ''Gamma'', Year = 2002, Runtime = 92,
                   Genres = None, Version = 3\<rparr>],
        seq = 2, clock = 0, requests = 2\<rparr>
     = (\<lparr>movies = [\<lparr>ID = 1, CreatedAt = 0, Title = ''Gamma'', Year = 2002, Runtime = 92,
                    Genres = None, Version = 3\<rparr>],
         seq = 2, clock = 0, requests = 3\<rparr>,
        Inl ErrEditConflict)"
    by (simp add: Update_def request_def sql_update_def Scan_def Let_def)
  have c: "Insert None
        \<lparr>ID = 0, CreatedAt = 0, Title = ''Alpha'', Year = 2000, Runtime = 90,
         Genres = Some [''drama''], Version = 0\<rparr>
        \<lparr>movies = [], seq = 1, clock = 5, requests = 0\<rparr>
      = (\<lparr>movies = [\<lparr>ID = 1, CreatedAt = 5, Title = ''Alpha'', Year = 2000, Runtime = 90,
                  Genres = Some [''drama''], Version = 1\<rparr>],
       seq = 2, clock = 5, requests = 1\<rparr>,
      Inr \<lparr>ID = 1, CreatedAt = 5, Title = ''Alpha'', Year = 2000, Runtime = 90,
           Genres = Some [''drama''], Version = 1\<rparr>)"
    by (simp add: Insert_def request_def sql_insert_def Scan_def Let_def version_default_def)
  show ?thesis
    using version_counts_successful_updates [THEN conjunct2, THEN conjunct1, rule_format, OF a] a b c by simp
qed

section \<open>Pagination metadata\<close>

text \<open>
  Claim C4. For a page size of at least 1: when there are records, the metadata has first
  page 1 and carries the page, the page size and the total as given; the last page is the
  ceiling of total records over page size, which is the least number of pages of that
  size that hold all records; and when there are no records, every field is zero.
\<close>

theorem calculateMetadata_pages:
  assumes "1 \<le> pageSize"
  shows "(totalRecords \<noteq> 0 \<longrightarrow>
            first_page (calculateMetadata totalRecords page pageSize) = 1
          \<and> current_page (calculateMetadata totalRecords page pageSize) = page
          \<and> page_size (calculateMetadata totalRecords page pageSize) = pageSize
          \<and> total_records (calculateMetadata totalRecords page pageSize) = totalRecords)
       \<and> last_page (calculateMetadata totalRecords page pageSize)
           = \<lceil>real_of_int totalRecords / real_of_int pageSize\<rceil>
       \<and> (\<forall>n. last_page (calculateMetadata totalRecords page pageSize) \<le> n
                \<longleftrightarrow> totalRecords \<le> n * pageSize)
       \<and> (totalRecords = 0 \<longrightarrow>
            calculateMetadata totalRecords page pageSize
              = \<lparr>current_page = 0, page_size = 0, first_page = 0, last_page = 0,
                 total_records = 0\<rparr>)"
proof -
  have lp: "last_page (calculateMetadata totalRecords page pageSize)
           = \<lceil>real_of_int totalRecords / real_of_int pageSize\<rceil>"
    by (simp add: calculateMetadata_def empty_Metadata_def)
  have "\<lceil>real_of_int totalRecords / real_of_int pageSize\<rceil> \<le> n
          \<longleftrightarrow> totalRecords \<le> n * pageSize" for n
  proof -
    have "\<lceil>real_of_int totalRecords / real_of_int pageSize\<rceil> \<le> n
            \<longleftrightarrow> real_of_int totalRecords / real_of_int pageSize \<le> real_of_int n"
      by (rule ceiling_le_iff)
    also have "\<dots> \<longleftrightarrow> real_of_int totalRecords \<le> real_of_int n * real_of_int pageSize"
      using assms by (simp add: pos_divide_le_eq)
    also have "\<dots> \<longleftrightarrow> totalRecords \<le> n * pageSize"
      by (metis of_int_le_iff of_int_mult)
    finally show ?thesis .
  qed
  with lp show ?thesis
    by (simp add: calculateMetadata_def empty_Metadata_def)
qed

theorem calculateMetadata_pages_witness:
  "(1 :: int) \<le> 10
   \<and> calculateMetadata 25 2 10
       = \<lparr>current_page = 2, page_size = 10, first_page = 1, last_page = 3, total_records = 25\<rparr>
   \<and> calculateMetadata 0 2 10
       = \<lparr>current_page = 0, page_size = 0, first_page = 0, last_page = 0, total_records = 0\<rparr>"
proof -
  have h: "(1 :: int) \<le> 10" by simp
  have "last_page (calculateMetadata 25 2 10) = 3"
    using calculateMetadata_pages [OF h, of 25 2] by simp
  moreover have "calculateMetadata 0 2 10
       = \<lparr>current_page = 0, page_size = 0, first_page = 0, last_page = 0, total_records = 0\<rparr>"
    using calculateMetadata_pages [OF h, of 0 2] by simp
  ultimately show ?thesis
    using calculateMetadata_pages [OF h, of 25 2]
    by (simp add: calculateMetadata_def)
qed

end
